theory Spec2Isabelle
  imports Main "HOL-Library.Sublist"
begin

section \<open>Token limits for Anthropic models (ra\_aid/anthropic\_token\_limiter.py)\<close>

subsection \<open>Python values and configuration dictionaries\<close>

text \<open>
  The configuration is a \<^verbatim>\<open>Dict[str, Any]\<close>. Its values are modelled by the scalar
  Python values a configuration holds: \<^verbatim>\<open>None\<close>, booleans, integers and strings.
\<close>

datatype pyval = PNone | PBool bool | PInt int | PStr string

text \<open>Python truthiness, as \<^verbatim>\<open>not x\<close>, \<^verbatim>\<open>x or y\<close> and \<^verbatim>\<open>if x\<close> read it.\<close>

fun truthy :: "pyval \<Rightarrow> bool" where
  "truthy PNone = False"
| "truthy (PBool b) = b"
| "truthy (PInt n) = (n \<noteq> 0)"
| "truthy (PStr s) = (s \<noteq> [])"

text \<open>\<^verbatim>\<open>a or b\<close>: the first operand when it is truthy, else the second.\<close>

definition py_or :: "pyval \<Rightarrow> pyval \<Rightarrow> pyval" where
  "py_or a b = (if truthy a then a else b)"

type_synonym config = "string \<rightharpoonup> pyval"

text \<open>\<^verbatim>\<open>config.get(key, "")\<close>.\<close>

definition config_get :: "config \<Rightarrow> string \<Rightarrow> pyval" where
  "config_get config key = (case config key of None \<Rightarrow> PStr [] | Some v \<Rightarrow> v)"

text \<open>
  \<^verbatim>\<open>str(x)\<close>, which an f-string applies to each of its fields: decimal digits
  for an integer, the constant's name for \<^verbatim>\<open>None\<close>, \<^verbatim>\<open>True\<close> and \<^verbatim>\<open>False\<close>.
\<close>

definition digit_char :: "nat \<Rightarrow> char" where
  "digit_char d = ''0123456789'' ! (d mod 10)"

function str_nat :: "nat \<Rightarrow> string" where
  "str_nat n = (if n < 10 then [digit_char n] else str_nat (n div 10) @ [digit_char (n mod 10)])"
  by pat_completeness auto
termination
  by (relation "measure id") auto

definition str_int :: "int \<Rightarrow> string" where
  "str_int i = (if i < 0 then CHR ''-'' # str_nat (nat (- i)) else str_nat (nat i))"

fun py_str :: "pyval \<Rightarrow> string" where
  "py_str PNone = ''None''"
| "py_str (PBool b) = (if b then ''True'' else ''False'')"
| "py_str (PInt i) = str_int i"
| "py_str (PStr s) = s"

subsection \<open>Provider and model for an agent type\<close>

definition get_provider_and_model_for_agent_type :: "config \<Rightarrow> string \<Rightarrow> pyval \<times> pyval" where
  "get_provider_and_model_for_agent_type config agent_type =
     (if agent_type = ''research'' then
        (py_or (config_get config ''research_provider'') (config_get config ''provider''),
         py_or (config_get config ''research_model'') (config_get config ''model''))
      else if agent_type = ''planner'' then
        (py_or (config_get config ''planner_provider'') (config_get config ''provider''),
         py_or (config_get config ''planner_model'') (config_get config ''model''))
      else
        (config_get config ''provider'', config_get config ''model''))"

subsection \<open>The live model handle\<close>

text \<open>
  A \<^verbatim>\<open>BaseChatModel\<close> instance is read only through \<^verbatim>\<open>hasattr\<close> and three
  attributes. A field is \<open>None\<close> when the instance has no such attribute.
  \<^verbatim>\<open>max_tokens\<close> may be present and hold \<^verbatim>\<open>None\<close>, which is \<open>Some None\<close>.
\<close>

record chat_model =
  model_attr :: "string option"
  model_name_attr :: "string option"
  max_tokens_attr :: "int option option"

text \<open>
  \<^verbatim>\<open>DEFAULT_MODEL\<close> (ra\_aid.config) is not among the sources; it is a parameter.
\<close>

definition get_model_name_from_chat_model :: "string \<Rightarrow> chat_model option \<Rightarrow> string" where
  "get_model_name_from_chat_model DEFAULT_MODEL model =
     (case model of
        None \<Rightarrow> DEFAULT_MODEL
      | Some m \<Rightarrow>
          (case model_attr m of
             Some name \<Rightarrow> name
           | None \<Rightarrow>
               (case model_name_attr m of
                  Some name \<Rightarrow> name
                | None \<Rightarrow> DEFAULT_MODEL)))"

subsection \<open>Adjustment for Claude 3.7\<close>

text \<open>
  \<^verbatim>\<open>is_claude_37\<close> (ra\_aid.model\_detection) is not among the sources; it is the
  parameter \<open>is_claude_37\<close>. The limit is an \<^verbatim>\<open>Optional[int]\<close>: \<open>None\<close> and \<open>Some 0\<close>
  are the falsy values.
\<close>

definition adjust_claude_37_token_limit ::
  "(string \<Rightarrow> bool) \<Rightarrow> int option \<Rightarrow> chat_model option \<Rightarrow> int option" where
  "adjust_claude_37_token_limit is_claude_37 max_input_tokens model =
     (case max_input_tokens of
        None \<Rightarrow> None
      | Some limit \<Rightarrow>
          if limit = 0 then Some limit
          else
            (case model of
               None \<Rightarrow> Some limit
             | Some m \<Rightarrow>
                 (case model_attr m of
                    None \<Rightarrow> Some limit
                  | Some name \<Rightarrow>
                      if is_claude_37 name then
                        (case max_tokens_attr m of
                           Some (Some max_tokens) \<Rightarrow>
                             if max_tokens \<noteq> 0 then Some (limit - max_tokens) else Some limit
                         | _ \<Rightarrow> Some limit)
                      else Some limit)))"

text \<open>
  A concrete family predicate for evaluating the definitions: it accepts one
  identifier of the Claude 3.7 family.
\<close>

definition sample_is_claude_37 :: "string \<Rightarrow> bool" where
  "sample_is_claude_37 name = (name = ''claude-3-7-sonnet-20250219'')"

definition claude_37_handle :: "int \<Rightarrow> chat_model" where
  "claude_37_handle n =
     \<lparr>model_attr = Some ''claude-3-7-sonnet-20250219'', model_name_attr = None,
      max_tokens_attr = Some (Some n)\<rparr>"

definition gpt_handle :: "int \<Rightarrow> chat_model" where
  "gpt_handle n =
     \<lparr>model_attr = Some ''gpt-4o'', model_name_attr = None, max_tokens_attr = Some (Some n)\<rparr>"

subsection \<open>Exceptions and the collaborators of the resolver\<close>

text \<open>
  The exceptions the resolver can meet, all of them subclasses of \<^verbatim>\<open>Exception\<close>:
  \<open>RuntimeError\<close> stands for \<^verbatim>\<open>RuntimeError\<close> and its subclasses, \<open>OtherException\<close>
  for any exception class outside the four named ones, by its name. Interrupts and
  interpreter exit, which are not subclasses of \<^verbatim>\<open>Exception\<close>, are outside the model.
\<close>

datatype py_exc = RuntimeError | AttributeError | KeyError | TypeError | OtherException string

text \<open>
  What \<^verbatim>\<open>get_model_info\<close> (litellm) returns: a dictionary whose numeric entries are
  read with \<^verbatim>\<open>.get\<close>; an entry that is missing or \<^verbatim>\<open>None\<close> reads as \<open>None\<close>.
\<close>

type_synonym model_info = "string \<rightharpoonup> int"

text \<open>
  \<^verbatim>\<open>models_params\<close> (ra\_aid.models\_params) is not among the sources: the table is a
  parameter, from provider to normalized model name to an entry with integer fields.
\<close>

type_synonym params_table = "string \<rightharpoonup> (string \<rightharpoonup> (string \<rightharpoonup> int))"

text \<open>
  The collaborators of one call: the outcome of \<^verbatim>\<open>get_config_repository().get_all()\<close>,
  the metadata provider, the static table and the family predicate.
\<close>

record collaborators =
  config_repository_get_all :: "py_exc + config"
  get_model_info :: "pyval \<Rightarrow> py_exc + model_info"
  models_params :: params_table
  is_claude_37 :: "string \<Rightarrow> bool"

subsection \<open>Resolving the token limit\<close>

text \<open>
  Lines 259 to 266: the repository's configuration replaces the argument; only a
  \<^verbatim>\<open>RuntimeError\<close> is handled here, and any other exception leaves the block.
\<close>

definition resolve_config :: "py_exc + config \<Rightarrow> config \<Rightarrow> py_exc + config" where
  "resolve_config from_repo config =
     (case from_repo of
        Inr config_from_repo \<Rightarrow> Inr config_from_repo
      | Inl RuntimeError \<Rightarrow> Inr config
      | Inl e \<Rightarrow> Inl e)"

text \<open>Line 271: \<^verbatim>\<open>model_name if not provider else f"{provider}/{model_name}"\<close>.\<close>

definition provider_model_id :: "pyval \<Rightarrow> pyval \<Rightarrow> pyval" where
  "provider_model_id provider model_name =
     (if \<not> truthy provider then model_name
      else PStr (py_str provider @ ''/'' @ py_str model_name))"

text \<open>
  Lines 273 to 284: the truthy \<^verbatim>\<open>max_input_tokens\<close> of the metadata, or \<open>None\<close> when the
  provider raised (the handler catches every \<^verbatim>\<open>Exception\<close>) or gave no truthy value.
\<close>

definition litellm_max_input_tokens :: "(pyval \<Rightarrow> py_exc + model_info) \<Rightarrow> pyval \<Rightarrow> int option" where
  "litellm_max_input_tokens model_info_of provider_model =
     (case model_info_of provider_model of
        Inl e \<Rightarrow> None
      | Inr model_info \<Rightarrow>
          (case model_info ''max_input_tokens'' of
             None \<Rightarrow> None
           | Some n \<Rightarrow> if n \<noteq> 0 then Some n else None))"

text \<open>\<^verbatim>\<open>s.replace(old, new)\<close> for a one-character \<^verbatim>\<open>old\<close>.\<close>

fun str_replace_char :: "char \<Rightarrow> string \<Rightarrow> string \<Rightarrow> string" where
  "str_replace_char old new [] = []"
| "str_replace_char old new (c # cs) =
     (if c = old then new @ str_replace_char old new cs else c # str_replace_char old new cs)"

text \<open>
  Lines 288 to 297. \<^verbatim>\<open>model_name.replace\<close> raises \<^verbatim>\<open>AttributeError\<close> unless the name is
  a string; a provider that is not a string is no key of the table; an entry without
  \<^verbatim>\<open>token_limit\<close> raises \<^verbatim>\<open>KeyError\<close>.
\<close>

definition provider_tokens_of :: "params_table \<Rightarrow> pyval \<Rightarrow> (string \<rightharpoonup> (string \<rightharpoonup> int))" where
  "provider_tokens_of table provider =
     (case provider of
        PStr p \<Rightarrow> (case table p of None \<Rightarrow> Map.empty | Some entries \<Rightarrow> entries)
      | _ \<Rightarrow> Map.empty)"

definition fallback_token_limit :: "params_table \<Rightarrow> pyval \<Rightarrow> pyval \<Rightarrow> py_exc + int option" where
  "fallback_token_limit table provider model_name =
     (case model_name of
        PStr name \<Rightarrow>
          (let normalized_name = str_replace_char CHR ''-'' [] name;
               provider_tokens = provider_tokens_of table provider
           in case provider_tokens normalized_name of
                Some entry \<Rightarrow>
                  (case entry ''token_limit'' of
                     None \<Rightarrow> Inl KeyError
                   | Some token_limit \<Rightarrow> Inr (Some token_limit))
              | None \<Rightarrow> Inr None)
      | _ \<Rightarrow> Inl AttributeError)"

text \<open>Lines 268 to 299, for the configuration in force.\<close>

definition resolve_limit ::
  "collaborators \<Rightarrow> config \<Rightarrow> string \<Rightarrow> chat_model option \<Rightarrow> py_exc + int option" where
  "resolve_limit env config agent_type model =
     (let (provider, model_name) = get_provider_and_model_for_agent_type config agent_type;
          provider_model = provider_model_id provider model_name
      in case litellm_max_input_tokens (get_model_info env) provider_model of
           Some max_input_tokens \<Rightarrow>
             Inr (adjust_claude_37_token_limit (is_claude_37 env) (Some max_input_tokens) model)
         | None \<Rightarrow>
             (case fallback_token_limit (models_params env) provider model_name of
                Inl e \<Rightarrow> Inl e
              | Inr max_input_tokens \<Rightarrow>
                  Inr (adjust_claude_37_token_limit (is_claude_37 env) max_input_tokens model)))"

text \<open>The body of the outer \<^verbatim>\<open>try\<close>, lines 258 to 299.\<close>

definition get_model_token_limit_body ::
  "collaborators \<Rightarrow> config \<Rightarrow> string \<Rightarrow> chat_model option \<Rightarrow> py_exc + int option" where
  "get_model_token_limit_body env config agent_type model =
     (case resolve_config (config_repository_get_all env) config of
        Inl e \<Rightarrow> Inl e
      | Inr config' \<Rightarrow> resolve_limit env config' agent_type model)"

text \<open>
  The whole function: \<open>Inl\<close> would be an exception reaching the caller, \<open>Inr\<close> is the
  value returned. The outer handler turns every \<^verbatim>\<open>Exception\<close> into \<^verbatim>\<open>None\<close>.
\<close>

definition get_model_token_limit ::
  "collaborators \<Rightarrow> config \<Rightarrow> string \<Rightarrow> chat_model option \<Rightarrow> py_exc + int option" where
  "get_model_token_limit env config agent_type model =
     (case get_model_token_limit_body env config agent_type model of
        Inl e \<Rightarrow> Inr None
      | Inr limit \<Rightarrow> Inr limit)"

text \<open>Concrete collaborators for evaluating the definitions.\<close>

definition sample_table :: params_table where
  "sample_table = [''anthropic'' \<mapsto> [''claude2'' \<mapsto> [''token_limit'' \<mapsto> 100000]]]"

definition unknown_model :: "pyval \<Rightarrow> py_exc + model_info" where
  "unknown_model provider_model = Inl (OtherException ''Exception'')"

definition known_model :: "pyval \<Rightarrow> py_exc + model_info" where
  "known_model provider_model = Inr [''max_input_tokens'' \<mapsto> 200000]"

definition sample_env :: "py_exc + config \<Rightarrow> (pyval \<Rightarrow> py_exc + model_info) \<Rightarrow> collaborators" where
  "sample_env from_repo model_info_of =
     \<lparr>config_repository_get_all = from_repo, get_model_info = model_info_of,
      models_params = sample_table, is_claude_37 = sample_is_claude_37\<rparr>"

definition claude_2_config :: config where
  "claude_2_config = [''provider'' \<mapsto> PStr ''anthropic'', ''model'' \<mapsto> PStr ''claude-2'']"

subsection \<open>Messages and token counters\<close>

text \<open>
  A \<^verbatim>\<open>BaseMessage\<close> is read through its type and its content (text or content blocks,
  the type parameter); the litellm format names the same two parts role and content.
\<close>

record 'c base_message =
  msg_type :: string
  msg_content :: 'c

record 'c litellm_message =
  role :: string
  content :: 'c

record 'c agent_state =
  messages :: "'c base_message list"

definition convert_message_to_litellm_format :: "'c base_message \<Rightarrow> 'c litellm_message" where
  "convert_message_to_litellm_format message =
     \<lparr>role = msg_type message, content = msg_content message\<rparr>"

text \<open>
  Token counts are natural numbers. \<^verbatim>\<open>CiaynAgent._estimate_tokens\<close> is not among the
  sources and litellm's \<^verbatim>\<open>token_counter\<close> is external: both are parameters.
\<close>

definition estimate_messages_tokens :: "('m \<Rightarrow> nat) \<Rightarrow> 'm list \<Rightarrow> nat" where
  "estimate_messages_tokens estimate_tokens msgs =
     (if msgs = [] then 0 else sum_list (map estimate_tokens msgs))"

definition create_token_counter_wrapper ::
  "(string \<Rightarrow> 'c litellm_message list \<Rightarrow> nat) \<Rightarrow> string \<Rightarrow> 'c base_message list \<Rightarrow> nat" where
  "create_token_counter_wrapper token_counter model msgs =
     (if msgs = [] then 0
      else token_counter model (map convert_message_to_litellm_format msgs))"

subsection \<open>Trimming\<close>

text \<open>
  Modelled from the spec: the "last" strategy that both trimmers apply is not among the
  sources. Section 4.3 describes it: starting from the most recent message and working
  backwards, accumulate messages while the total token count stays within \<^verbatim>\<open>max_tokens\<close>;
  stop before exceeding it; no message is split. \<open>accumulate_last\<close> walks the messages most
  recent first; \<open>acc\<close> is the suffix accumulated so far, in the original order.
\<close>

fun accumulate_last :: "('m list \<Rightarrow> nat) \<Rightarrow> int \<Rightarrow> 'm list \<Rightarrow> 'm list \<Rightarrow> 'm list" where
  "accumulate_last token_counter max_tokens [] acc = acc"
| "accumulate_last token_counter max_tokens (m # older) acc =
     (if int (token_counter (m # acc)) \<le> max_tokens
      then accumulate_last token_counter max_tokens older (m # acc)
      else acc)"

definition trim_last :: "'m list \<Rightarrow> ('m list \<Rightarrow> nat) \<Rightarrow> int \<Rightarrow> 'm list" where
  "trim_last msgs token_counter max_tokens =
     accumulate_last token_counter max_tokens (rev msgs) []"

text \<open>A \<^verbatim>\<open>SystemMessage\<close> is a message whose type is \<^verbatim>\<open>system\<close>.\<close>

definition is_system_message :: "'c base_message \<Rightarrow> bool" where
  "is_system_message message = (msg_type message = ''system'')"

text \<open>
  Modelled from the spec: \<^verbatim>\<open>trim_messages\<close> (langchain\_core) is not among the sources.
  It is called with strategy "last" and without partial messages, which section 4.3
  describes, and with \<^verbatim>\<open>include_system\<close>. With \<^verbatim>\<open>include_system=True\<close> a
  \<^verbatim>\<open>SystemMessage\<close> at index 0 of the list given is kept whatever it costs, and the
  messages behind it are trimmed against the budget it leaves, which is not taken below
  zero.
\<close>

definition trim_messages ::
  "'c base_message list \<Rightarrow> ('c base_message list \<Rightarrow> nat) \<Rightarrow> int \<Rightarrow> bool \<Rightarrow>
   'c base_message list" where
  "trim_messages msgs token_counter max_tokens include_system =
     (case msgs of
        [] \<Rightarrow> []
      | m # rest \<Rightarrow>
          if include_system \<and> is_system_message m then
            m # trim_last rest token_counter (max 0 (max_tokens - int (token_counter [m])))
          else trim_last msgs token_counter max_tokens)"

text \<open>
  Modelled from the spec: \<^verbatim>\<open>anthropic_trim_messages\<close> (ra\_aid.anthropic\_message\_utils) is
  not among the sources. Section 4.3, policy A: the first \<^verbatim>\<open>num_messages_to_keep\<close>
  messages are always retained; the budget consumed by this prefix is subtracted from the
  total budget before trimming the remainder; the remaining messages are trimmed with the
  "last" strategy; the output is the prefix followed by the trimmed suffix. An empty input
  gives an empty output and the counter is not called.
\<close>

definition anthropic_trim_messages ::
  "'m list \<Rightarrow> ('m list \<Rightarrow> nat) \<Rightarrow> int \<Rightarrow> nat \<Rightarrow> 'm list" where
  "anthropic_trim_messages msgs token_counter max_tokens num_messages_to_keep =
     (if msgs = [] then []
      else
        (let kept_messages = take num_messages_to_keep msgs;
             remaining_messages = drop num_messages_to_keep msgs
         in kept_messages @
            trim_last remaining_messages token_counter
              (max_tokens - int (token_counter kept_messages))))"

text \<open>Lines 109 to 131. Logging has no effect on the result.\<close>

definition state_modifier ::
  "string \<Rightarrow> (string \<Rightarrow> 'c litellm_message list \<Rightarrow> nat) \<Rightarrow> 'c agent_state \<Rightarrow>
   chat_model option \<Rightarrow> int \<Rightarrow> 'c base_message list" where
  "state_modifier DEFAULT_MODEL token_counter state model max_input_tokens =
     (if messages state = [] then []
      else
        (let model_name = get_model_name_from_chat_model DEFAULT_MODEL model;
             wrapped_token_counter = create_token_counter_wrapper token_counter model_name
         in anthropic_trim_messages (messages state) wrapped_token_counter max_input_tokens 2))"

text \<open>
  Lines 146 to 167: the first message is kept, and the remaining ones go through
  \<^verbatim>\<open>trim_messages\<close> with \<^verbatim>\<open>include_system=True\<close> and the budget the first message leaves.
\<close>

definition sonnet_35_state_modifier ::
  "('c base_message \<Rightarrow> nat) \<Rightarrow> 'c agent_state \<Rightarrow> int \<Rightarrow> 'c base_message list" where
  "sonnet_35_state_modifier estimate_tokens state max_input_tokens =
     (case messages state of
        [] \<Rightarrow> []
      | first_message # remaining_messages \<Rightarrow>
          (let first_tokens = estimate_messages_tokens estimate_tokens [first_message];
               new_max_tokens = max_input_tokens - int first_tokens;
               trimmed_remaining =
                 trim_messages remaining_messages (estimate_messages_tokens estimate_tokens)
                   new_max_tokens True
           in [first_message] @ trimmed_remaining))"

text \<open>
  The number of leading messages that \<^verbatim>\<open>sonnet_35_state_modifier\<close> keeps whatever the
  budget: the first message, and the one after it when that is a \<^verbatim>\<open>SystemMessage\<close>.
\<close>

definition sonnet_35_kept_prefix :: "'c base_message list \<Rightarrow> nat" where
  "sonnet_35_kept_prefix msgs =
     (case msgs of
        first_message # second_message # rest \<Rightarrow>
          if is_system_message second_message then 2 else 1
      | _ \<Rightarrow> 1)"


text \<open>Concrete messages and counters for evaluating the definitions.\<close>

definition sample_estimate_tokens :: "string base_message \<Rightarrow> nat" where
  "sample_estimate_tokens message = length (msg_content message) div 2"

definition sample_token_counter :: "string \<Rightarrow> string litellm_message list \<Rightarrow> nat" where
  "sample_token_counter model msgs = sum_list (map (\<lambda>m. length (content m)) msgs)"

text \<open>A counter that adds a constant of three tokens to every call.\<close>

definition overhead_token_counter :: "string \<Rightarrow> string litellm_message list \<Rightarrow> nat" where
  "overhead_token_counter model msgs = 3 + sum_list (map (\<lambda>m. length (content m)) msgs)"

definition system_message :: "string base_message" where
  "system_message = \<lparr>msg_type = ''system'', msg_content = ''0123456789''\<rparr>"

definition human_message :: "string base_message" where
  "human_message = \<lparr>msg_type = ''human'', msg_content = ''abcdef''\<rparr>"

definition ai_message :: "string base_message" where
  "ai_message = \<lparr>msg_type = ''ai'', msg_content = ''wxyz''\<rparr>"

definition empty_ai_message :: "string base_message" where
  "empty_ai_message = \<lparr>msg_type = ''ai'', msg_content = []\<rparr>"

section \<open>Properties\<close>

subsection \<open>Unfolding sets and auxiliary facts\<close>

lemmas sample_defs =
  sample_env_def sample_table_def unknown_model_def known_model_def claude_2_config_def
  sample_is_claude_37_def claude_37_handle_def gpt_handle_def

lemmas resolver_defs =
  get_model_token_limit_def get_model_token_limit_body_def resolve_config_def resolve_limit_def
  get_provider_and_model_for_agent_type_def config_get_def py_or_def provider_model_id_def
  litellm_max_input_tokens_def fallback_token_limit_def provider_tokens_of_def
  adjust_claude_37_token_limit_def

lemma str_replace_char_filter:
  "str_replace_char old [] s = filter (\<lambda>c. c \<noteq> old) s"
  by (induction s) simp_all


subsection \<open>Auxiliary facts about trimming\<close>

lemmas message_defs =
  system_message_def human_message_def ai_message_def empty_ai_message_def
  sample_estimate_tokens_def sample_token_counter_def overhead_token_counter_def

lemmas trim_defs =
  state_modifier_def sonnet_35_state_modifier_def anthropic_trim_messages_def trim_messages_def
  trim_last_def is_system_message_def sonnet_35_kept_prefix_def
  create_token_counter_wrapper_def estimate_messages_tokens_def
  convert_message_to_litellm_format_def get_model_name_from_chat_model_def

lemma accumulate_last_suffix:
  "\<exists>s. suffix s (rev xs) \<and> accumulate_last c b xs acc = s @ acc"
proof (induction xs arbitrary: acc)
  case Nil
  show ?case by simp
next
  case (Cons m older)
  show ?case
  proof (cases "int (c (m # acc)) \<le> b")
    case True
    from Cons.IH [of "m # acc"] obtain s where
      s: "suffix s (rev older)" "accumulate_last c b older (m # acc) = s @ m # acc"
      by blast
    have "suffix (s @ [m]) (rev (m # older))" using s(1) by simp
    moreover have "accumulate_last c b (m # older) acc = (s @ [m]) @ acc"
      using True s(2) by simp
    ultimately show ?thesis by blast
  next
    case False
    then have "accumulate_last c b (m # older) acc = [] @ acc" by simp
    then show ?thesis using Nil_suffix by blast
  qed
qed

lemma trim_last_suffix: "suffix (trim_last msgs c b) msgs"
  using accumulate_last_suffix [of "rev msgs" c b "[]"] by (auto simp: trim_last_def)

lemma suffix_as_drop:
  assumes "suffix s ys"
  shows "\<exists>k. s = drop k ys"
proof -
  obtain zs where "ys = zs @ s" using assms by (auto simp: suffix_def)
  then have "s = drop (length zs) ys" by simp
  then show ?thesis by blast
qed

lemma trim_last_drop: "\<exists>k. trim_last msgs c b = drop k msgs"
  using suffix_as_drop [OF trim_last_suffix] .







lemma anthropic_trim_shape:
  "\<exists>k. anthropic_trim_messages msgs c b n = take n msgs @ drop k (drop n msgs)"
proof (cases "msgs = []")
  case True
  then show ?thesis by (simp add: anthropic_trim_messages_def)
next
  case False
  obtain k where "trim_last (drop n msgs) c (b - int (c (take n msgs))) = drop k (drop n msgs)"
    using trim_last_drop by blast
  then show ?thesis using False by (auto simp: anthropic_trim_messages_def Let_def)
qed

lemma anthropic_trim_length:
  "length (anthropic_trim_messages msgs c b n) \<le> length msgs"
proof -
  obtain k where "anthropic_trim_messages msgs c b n = take n msgs @ drop k (drop n msgs)"
    using anthropic_trim_shape by blast
  then show ?thesis by simp
qed






lemma state_modifier_as_anthropic_trim:
  "state_modifier D tc state model b =
   anthropic_trim_messages (messages state)
     (create_token_counter_wrapper tc (get_model_name_from_chat_model D model)) b 2"
  by (simp add: state_modifier_def anthropic_trim_messages_def Let_def)


lemma estimate_messages_tokens_single: "estimate_messages_tokens est [m] = est m"
  by (simp add: estimate_messages_tokens_def)


text \<open>Facts about \<^verbatim>\<open>trim_messages\<close> with a system message at the head of its input.\<close>

lemma trim_messages_shape:
  "\<exists>k. trim_messages msgs c b inc =
     take (if inc \<and> msgs \<noteq> [] \<and> is_system_message (hd msgs) then 1 else 0) msgs @
     drop k (drop (if inc \<and> msgs \<noteq> [] \<and> is_system_message (hd msgs) then 1 else 0) msgs)"
proof (cases msgs)
  case Nil
  then show ?thesis by (simp add: trim_messages_def)
next
  case (Cons m rest)
  show ?thesis
  proof (cases "inc \<and> is_system_message m")
    case True
    obtain k where "trim_last rest c (max 0 (b - int (c [m]))) = drop k rest"
      using trim_last_drop by blast
    then show ?thesis using Cons True by (auto simp: trim_messages_def)
  next
    case False
    obtain k where "trim_last msgs c b = drop k msgs"
      using trim_last_drop by blast
    then show ?thesis using Cons False by (auto simp: trim_messages_def)
  qed
qed




lemma sonnet_35_unfold:
  "sonnet_35_state_modifier est state b =
     (case messages state of
        [] \<Rightarrow> []
      | first_message # remaining_messages \<Rightarrow>
          first_message #
          trim_messages remaining_messages (estimate_messages_tokens est)
            (b - int (est first_message)) True)"
  by (simp add: sonnet_35_state_modifier_def Let_def estimate_messages_tokens_single
      split: list.splits)

lemma sonnet_35_shape:
  "\<exists>k. sonnet_35_state_modifier est state b =
     take (sonnet_35_kept_prefix (messages state)) (messages state) @
     drop k (drop (sonnet_35_kept_prefix (messages state)) (messages state))"
proof (cases "messages state")
  case Nil
  then show ?thesis by (simp add: sonnet_35_unfold)
next
  case (Cons first_message remaining_messages)
  obtain k where k: "trim_messages remaining_messages (estimate_messages_tokens est)
      (b - int (est first_message)) True =
     take (if True \<and> remaining_messages \<noteq> [] \<and> is_system_message (hd remaining_messages)
           then 1 else 0) remaining_messages @
     drop k (drop (if True \<and> remaining_messages \<noteq> [] \<and>
                      is_system_message (hd remaining_messages)
                   then 1 else 0) remaining_messages)"
    using trim_messages_shape by blast
  show ?thesis
    using Cons k
    by (cases remaining_messages)
      (auto simp: sonnet_35_unfold sonnet_35_kept_prefix_def intro: exI [where x = k])
qed

lemma sonnet_35_length:
  "length (sonnet_35_state_modifier est state b) \<le> length (messages state)"
proof -
  obtain k where "sonnet_35_state_modifier est state b =
     take (sonnet_35_kept_prefix (messages state)) (messages state) @
     drop k (drop (sonnet_35_kept_prefix (messages state)) (messages state))"
    using sonnet_35_shape by blast
  then show ?thesis by simp
qed




subsection \<open>Claude 3.7 adjustment\<close>

text \<open>
  C3: for a truthy limit and a model handle whose identifier is in the Claude 3.7 family
  and whose maximum-output-token allocation is truthy, the adjusted limit is the limit
  minus the allocation; a falsy limit (\<^verbatim>\<open>None\<close> or zero) is returned unchanged, whatever
  the handle.
\<close>

theorem adjust_claude_37_subtracts:
  "(limit \<noteq> 0 \<and> model_attr m = Some name \<and> in_family name \<and>
    max_tokens_attr m = Some (Some k) \<and> k \<noteq> 0 \<longrightarrow>
      adjust_claude_37_token_limit in_family (Some limit) (Some m) = Some (limit - k)) \<and>
   adjust_claude_37_token_limit in_family None model = None \<and>
   adjust_claude_37_token_limit in_family (Some 0) model = Some 0"
  by (simp add: adjust_claude_37_token_limit_def)

theorem adjust_claude_37_subtracts_witness:
  "adjust_claude_37_token_limit sample_is_claude_37 (Some 200000)
     (Some (claude_37_handle 64000)) = Some 136000 \<and>
   adjust_claude_37_token_limit sample_is_claude_37 None (Some (claude_37_handle 64000)) = None \<and>
   adjust_claude_37_token_limit sample_is_claude_37 (Some 0) (Some (claude_37_handle 64000)) = Some 0"
  using adjust_claude_37_subtracts [where limit = 200000 and m = "claude_37_handle 64000"
      and name = "''claude-3-7-sonnet-20250219''" and in_family = sample_is_claude_37
      and k = 64000 and model = "Some (claude_37_handle 64000)"]
  by (simp add: claude_37_handle_def sample_is_claude_37_def)

text \<open>
  C10 (as amended): when the handle's allocation is not negative, the adjusted limit is
  never greater than the limit given, and \<^verbatim>\<open>None\<close> stays \<^verbatim>\<open>None\<close>. When the handle is in
  the Claude 3.7 family and its allocation is at least the limit, the result is an
  integer that is zero or negative: it is not clamped and it is not \<^verbatim>\<open>None\<close>.
\<close>

theorem adjust_claude_37_never_raises_limit:
  "((\<forall>m k. model = Some m \<and> max_tokens_attr m = Some (Some k) \<longrightarrow> 0 \<le> k) \<longrightarrow>
      (case adjust_claude_37_token_limit in_family max_input_tokens model of
         None \<Rightarrow> max_input_tokens = None
       | Some r \<Rightarrow> (\<exists>limit. max_input_tokens = Some limit \<and> r \<le> limit))) \<and>
   (model_attr h = Some name \<and> in_family name \<and> max_tokens_attr h = Some (Some k') \<and>
    limit' \<le> k' \<longrightarrow>
      (\<exists>r. adjust_claude_37_token_limit in_family (Some limit') (Some h) = Some r \<and> r \<le> 0 \<and>
           (limit' \<noteq> 0 \<and> k' \<noteq> 0 \<longrightarrow> r = limit' - k')))"
  by (auto simp: adjust_claude_37_token_limit_def split: option.splits)

theorem adjust_claude_37_never_raises_limit_witness:
  "adjust_claude_37_token_limit sample_is_claude_37 (Some 200000)
     (Some (claude_37_handle 64000)) = Some 136000 \<and>
   (136000 :: int) \<le> 200000 \<and>
   adjust_claude_37_token_limit sample_is_claude_37 (Some 1000)
     (Some (claude_37_handle 4096)) = Some (- 3096)"
  using adjust_claude_37_never_raises_limit [where model = "Some (claude_37_handle 64000)"
      and in_family = sample_is_claude_37 and max_input_tokens = "Some 200000"
      and h = "claude_37_handle 4096" and name = "''claude-3-7-sonnet-20250219''"
      and k' = 4096 and limit' = 1000]
  by (simp add: claude_37_handle_def sample_is_claude_37_def adjust_claude_37_token_limit_def)

text \<open>
  C10 as stated fails twice. A handle outside the family with an allocation equal to the
  limit gets the limit back, which is positive; and a negative allocation raises the limit.
\<close>

theorem adjust_claude_37_limit_counterexample:
  "adjust_claude_37_token_limit sample_is_claude_37 (Some 8192) (Some (gpt_handle 8192))
     = Some 8192 \<and>
   adjust_claude_37_token_limit sample_is_claude_37 (Some 100) (Some (claude_37_handle (- 1)))
     = Some 101"
  by (simp add: adjust_claude_37_token_limit_def gpt_handle_def claude_37_handle_def
      sample_is_claude_37_def)

subsection \<open>Role-specific configuration keys\<close>

text \<open>
  C4: for the agent types \<^verbatim>\<open>research\<close> and \<^verbatim>\<open>planner\<close> the role-specific keys are used
  when they hold a truthy (present, non-empty) value, and the generic keys
  \<^verbatim>\<open>provider\<close> and \<^verbatim>\<open>model\<close> otherwise; every other agent type reads the generic keys.
\<close>

theorem role_keys_override_generic_keys:
  "(agent_type = ''research'' \<longrightarrow>
      fst (get_provider_and_model_for_agent_type config agent_type) =
        (if truthy (config_get config ''research_provider'')
         then config_get config ''research_provider'' else config_get config ''provider'') \<and>
      snd (get_provider_and_model_for_agent_type config agent_type) =
        (if truthy (config_get config ''research_model'')
         then config_get config ''research_model'' else config_get config ''model'')) \<and>
   (agent_type = ''planner'' \<longrightarrow>
      fst (get_provider_and_model_for_agent_type config agent_type) =
        (if truthy (config_get config ''planner_provider'')
         then config_get config ''planner_provider'' else config_get config ''provider'') \<and>
      snd (get_provider_and_model_for_agent_type config agent_type) =
        (if truthy (config_get config ''planner_model'')
         then config_get config ''planner_model'' else config_get config ''model'')) \<and>
   (agent_type \<noteq> ''research'' \<and> agent_type \<noteq> ''planner'' \<longrightarrow>
      get_provider_and_model_for_agent_type config agent_type =
        (config_get config ''provider'', config_get config ''model''))"
  by (simp add: get_provider_and_model_for_agent_type_def py_or_def)

theorem role_keys_override_generic_keys_witness:
  "snd (get_provider_and_model_for_agent_type
      [''research_model'' \<mapsto> PStr ''m1'', ''model'' \<mapsto> PStr ''m2''] ''research'') = PStr ''m1'' \<and>
   snd (get_provider_and_model_for_agent_type
      [''research_model'' \<mapsto> PStr ''m1'', ''model'' \<mapsto> PStr ''m2''] ''default'') = PStr ''m2'' \<and>
   snd (get_provider_and_model_for_agent_type
      [''planner_model'' \<mapsto> PStr [], ''model'' \<mapsto> PStr ''m2''] ''planner'') = PStr ''m2''"
  using role_keys_override_generic_keys
      [where agent_type = "''research''"
        and config = "[''research_model'' \<mapsto> PStr ''m1'', ''model'' \<mapsto> PStr ''m2'']"]
    role_keys_override_generic_keys
      [where agent_type = "''default''"
        and config = "[''research_model'' \<mapsto> PStr ''m1'', ''model'' \<mapsto> PStr ''m2'']"]
    role_keys_override_generic_keys
      [where agent_type = "''planner''"
        and config = "[''planner_model'' \<mapsto> PStr [], ''model'' \<mapsto> PStr ''m2'']"]
  by (simp add: config_get_def)

subsection \<open>The resolver\<close>

text \<open>
  C1: \<^verbatim>\<open>get_model_token_limit\<close> always returns a value, an integer or \<^verbatim>\<open>None\<close>, and never
  raises to its caller; whenever an exception leaves the body of its outer \<^verbatim>\<open>try\<close>, the
  value returned is \<^verbatim>\<open>None\<close>.
\<close>

theorem get_model_token_limit_never_raises:
  "(\<exists>limit. get_model_token_limit env config agent_type model = Inr limit) \<and>
   (get_model_token_limit_body env config agent_type model = Inl e \<longrightarrow>
      get_model_token_limit env config agent_type model = Inr None)"
  by (simp add: get_model_token_limit_def split: sum.splits)

theorem get_model_token_limit_never_raises_witness:
  "get_model_token_limit_body (sample_env (Inl RuntimeError) unknown_model)
      [''provider'' \<mapsto> PStr ''anthropic'', ''model'' \<mapsto> PNone] ''default'' None = Inl AttributeError \<and>
   get_model_token_limit (sample_env (Inl RuntimeError) unknown_model)
      [''provider'' \<mapsto> PStr ''anthropic'', ''model'' \<mapsto> PNone] ''default'' None = Inr None"
  using get_model_token_limit_never_raises
    [where env = "sample_env (Inl RuntimeError) unknown_model"
       and config = "[''provider'' \<mapsto> PStr ''anthropic'', ''model'' \<mapsto> PNone]"
       and agent_type = "''default''" and model = None and e = AttributeError]
  by (simp add: resolver_defs sample_defs)

text \<open>
  C6: when the metadata provider raises, or its record has no truthy
  \<^verbatim>\<open>max_input_tokens\<close>, the failure is not propagated and the result is that of the
  fallback-table lookup (adjusted, or \<^verbatim>\<open>None\<close> when the lookup itself raises); a truthy
  metadata value is returned, adjusted, without consulting the table.
\<close>

theorem metadata_failure_falls_back:
  "resolve_config (config_repository_get_all env) config = Inr cfg \<and>
   get_provider_and_model_for_agent_type cfg agent_type = (provider, model_name) \<longrightarrow>
     (((\<exists>e. get_model_info env (provider_model_id provider model_name) = Inl e) \<or>
       (\<exists>info. get_model_info env (provider_model_id provider model_name) = Inr info \<and>
          (info ''max_input_tokens'' = None \<or> info ''max_input_tokens'' = Some 0)) \<longrightarrow>
        get_model_token_limit env config agent_type model =
          (case fallback_token_limit (models_params env) provider model_name of
             Inl e \<Rightarrow> Inr None
           | Inr limit \<Rightarrow> Inr (adjust_claude_37_token_limit (is_claude_37 env) limit model))) \<and>
      (\<forall>info n. get_model_info env (provider_model_id provider model_name) = Inr info \<and>
          info ''max_input_tokens'' = Some n \<and> n \<noteq> 0 \<longrightarrow>
        get_model_token_limit env config agent_type model =
          Inr (adjust_claude_37_token_limit (is_claude_37 env) (Some n) model)))"
  by (auto simp: get_model_token_limit_def get_model_token_limit_body_def resolve_limit_def
      litellm_max_input_tokens_def split: sum.splits option.splits)

theorem metadata_failure_falls_back_witness:
  "get_model_token_limit (sample_env (Inl RuntimeError) unknown_model) claude_2_config
      ''default'' (Some (claude_37_handle 64000)) = Inr (Some 36000) \<and>
   get_model_token_limit (sample_env (Inl RuntimeError) known_model) claude_2_config
      ''default'' (Some (claude_37_handle 64000)) = Inr (Some 136000)"
  using metadata_failure_falls_back
    [where env = "sample_env (Inl RuntimeError) unknown_model" and config = claude_2_config
       and cfg = claude_2_config and agent_type = "''default''"
       and provider = "PStr ''anthropic''" and model_name = "PStr ''claude-2''"
       and model = "Some (claude_37_handle 64000)"]
    metadata_failure_falls_back
    [where env = "sample_env (Inl RuntimeError) known_model" and config = claude_2_config
       and cfg = claude_2_config and agent_type = "''default''"
       and provider = "PStr ''anthropic''" and model_name = "PStr ''claude-2''"
       and model = "Some (claude_37_handle 64000)"]
  by (simp add: resolver_defs sample_defs)

text \<open>
  C5: in the fallback path the model name is looked up with every hyphen removed, in the
  table keyed by provider and then by normalized name; when the provider or the normalized
  name has no entry the limit is \<^verbatim>\<open>None\<close>.
\<close>

theorem fallback_lookup_normalizes_hyphens:
  "str_replace_char CHR ''-'' [] name = filter (\<lambda>c. c \<noteq> CHR ''-'') name \<and>
   ((\<forall>p. provider \<noteq> PStr p) \<longrightarrow> fallback_token_limit table provider (PStr name) = Inr None) \<and>
   fallback_token_limit table (PStr p) (PStr name) =
     (case table p of
        None \<Rightarrow> Inr None
      | Some entries \<Rightarrow>
          (case entries (filter (\<lambda>c. c \<noteq> CHR ''-'') name) of
             None \<Rightarrow> Inr None
           | Some entry \<Rightarrow>
               (case entry ''token_limit'' of
                  None \<Rightarrow> Inl KeyError
                | Some token_limit \<Rightarrow> Inr (Some token_limit)))) \<and>
   (resolve_config (config_repository_get_all env) config = Inr cfg \<and>
    get_provider_and_model_for_agent_type cfg agent_type = (provider, model_name) \<and>
    litellm_max_input_tokens (get_model_info env) (provider_model_id provider model_name) = None \<longrightarrow>
      get_model_token_limit env config agent_type model =
        (case fallback_token_limit (models_params env) provider model_name of
           Inl e \<Rightarrow> Inr None
         | Inr limit \<Rightarrow> Inr (adjust_claude_37_token_limit (is_claude_37 env) limit model)))"
  by (auto simp: str_replace_char_filter fallback_token_limit_def provider_tokens_of_def
      get_model_token_limit_def get_model_token_limit_body_def resolve_limit_def
      split: sum.splits option.splits pyval.splits)

theorem fallback_lookup_normalizes_hyphens_witness:
  "str_replace_char CHR ''-'' [] ''claude-2'' = ''claude2'' \<and>
   fallback_token_limit sample_table (PStr ''anthropic'') (PStr ''claude-2'') = Inr (Some 100000) \<and>
   fallback_token_limit sample_table (PStr ''openai'') (PStr ''claude-2'') = Inr None \<and>
   fallback_token_limit sample_table (PStr ''anthropic'') (PStr ''claude-3'') = Inr None \<and>
   fallback_token_limit sample_table PNone (PStr ''claude-2'') = Inr None \<and>
   get_model_token_limit (sample_env (Inl RuntimeError) unknown_model) claude_2_config
      ''default'' None = Inr (Some 100000)"
  using fallback_lookup_normalizes_hyphens
    [where name = "''claude-2''" and provider = "PStr ''anthropic''" and p = "''anthropic''"
       and table = sample_table and model_name = "PStr ''claude-2''"
       and env = "sample_env (Inl RuntimeError) unknown_model" and config = claude_2_config
       and cfg = claude_2_config and agent_type = "''default''" and model = None]
  by (simp add: resolver_defs sample_defs)

text \<open>
  C9 (as amended): when obtaining the live configuration fails with a \<^verbatim>\<open>RuntimeError\<close>,
  resolution continues with the configuration supplied by the caller, and the outcome is
  the one a repository holding that very configuration would give.
\<close>

theorem config_runtime_error_uses_supplied_config:
  "config_repository_get_all env = Inl RuntimeError \<longrightarrow>
     get_model_token_limit_body env config agent_type model =
       resolve_limit env config agent_type model \<and>
     get_model_token_limit env config agent_type model =
       get_model_token_limit (env\<lparr>config_repository_get_all := Inr config\<rparr>)
         config agent_type model"
  by (simp add: get_model_token_limit_def get_model_token_limit_body_def resolve_config_def
      resolve_limit_def split: prod.splits option.splits sum.splits)

theorem config_runtime_error_uses_supplied_config_witness:
  "get_model_token_limit (sample_env (Inl RuntimeError) unknown_model) claude_2_config
      ''default'' None = Inr (Some 100000) \<and>
   resolve_limit (sample_env (Inl RuntimeError) unknown_model) claude_2_config
      ''default'' None = Inr (Some 100000)"
  using config_runtime_error_uses_supplied_config
    [where env = "sample_env (Inl RuntimeError) unknown_model" and config = claude_2_config
       and agent_type = "''default''" and model = None]
  by (simp add: resolver_defs sample_defs)

text \<open>
  C9 as stated fails for a failure that is not a \<^verbatim>\<open>RuntimeError\<close>: the exception reaches
  the outer handler and the result is \<^verbatim>\<open>None\<close>, although resolution with the supplied
  configuration finds a limit.
\<close>

theorem config_failure_counterexample:
  "get_model_token_limit (sample_env (Inl (OtherException ''OperationalError'')) unknown_model)
      claude_2_config ''default'' None = Inr None \<and>
   resolve_limit (sample_env (Inl (OtherException ''OperationalError'')) unknown_model)
      claude_2_config ''default'' None = Inr (Some 100000)"
  by (simp add: resolver_defs sample_defs)

subsection \<open>Trimming\<close>

text \<open>
  C2 (as amended): for every message list, token counter and budget, the output of
  \<^verbatim>\<open>state_modifier\<close> and of \<^verbatim>\<open>sonnet_35_state_modifier\<close> is no longer than the input, and
  it is the messages kept whatever the budget followed by a contiguous suffix of the
  remaining messages, in the original order. The messages kept are the first two for
  \<^verbatim>\<open>state_modifier\<close>; for \<^verbatim>\<open>sonnet_35_state_modifier\<close> they are the first message, and
  the second one too when it is a \<^verbatim>\<open>SystemMessage\<close>.
\<close>

theorem trimmed_output_is_prefix_and_suffix:
  "length (state_modifier DEFAULT_MODEL token_counter state model max_input_tokens)
      \<le> length (messages state) \<and>
   (\<exists>k. state_modifier DEFAULT_MODEL token_counter state model max_input_tokens =
      take 2 (messages state) @ drop k (drop 2 (messages state))) \<and>
   length (sonnet_35_state_modifier estimate_tokens state' max_input_tokens')
      \<le> length (messages state') \<and>
   (\<exists>k. sonnet_35_state_modifier estimate_tokens state' max_input_tokens' =
      take (sonnet_35_kept_prefix (messages state')) (messages state') @
      drop k (drop (sonnet_35_kept_prefix (messages state')) (messages state')))"
  unfolding state_modifier_as_anthropic_trim
  by (intro conjI anthropic_trim_length anthropic_trim_shape sonnet_35_length sonnet_35_shape)

theorem trimmed_output_is_prefix_and_suffix_witness:
  "state_modifier ''default-model'' sample_token_counter
      \<lparr>messages = [system_message, human_message, ai_message, empty_ai_message]\<rparr> None 16 =
      [system_message, human_message, empty_ai_message] \<and>
   sonnet_35_state_modifier sample_estimate_tokens
      \<lparr>messages = [system_message, human_message, ai_message]\<rparr> 7 =
      [system_message, ai_message] \<and>
   sonnet_35_kept_prefix [system_message, human_message, ai_message] = 1"
  using trimmed_output_is_prefix_and_suffix
    [where DEFAULT_MODEL = "''default-model''" and token_counter = sample_token_counter
       and state = "\<lparr>messages = [system_message, human_message, ai_message, empty_ai_message]\<rparr>"
       and model = None and max_input_tokens = 16 and estimate_tokens = sample_estimate_tokens
       and state' = "\<lparr>messages = [system_message, human_message, ai_message]\<rparr>"
       and max_input_tokens' = 7]
  by (simp add: trim_defs message_defs)

text \<open>
  C2 as stated fails for \<^verbatim>\<open>sonnet_35_state_modifier\<close> when the second message is a
  \<^verbatim>\<open>SystemMessage\<close>: it is kept, the message behind it is dropped, and the output is not
  the first message followed by a contiguous suffix of the other three.
\<close>

theorem sonnet_35_keeps_system_counterexample:
  "sonnet_35_state_modifier sample_estimate_tokens
      \<lparr>messages = [system_message, system_message, human_message, ai_message]\<rparr> 12 =
      [system_message, system_message, ai_message] \<and>
   (\<forall>k. sonnet_35_state_modifier sample_estimate_tokens
      \<lparr>messages = [system_message, system_message, human_message, ai_message]\<rparr> 12 \<noteq>
      take 1 [system_message, system_message, human_message, ai_message] @
      drop k (drop 1 [system_message, system_message, human_message, ai_message]))"
proof -
  have r: "sonnet_35_state_modifier sample_estimate_tokens
      \<lparr>messages = [system_message, system_message, human_message, ai_message]\<rparr> 12 =
      [system_message, system_message, ai_message]"
    by (simp add: trim_defs message_defs)
  have "[system_message, system_message, ai_message] \<noteq>
      take 1 [system_message, system_message, human_message, ai_message] @
      drop k (drop 1 [system_message, system_message, human_message, ai_message])" for k
  proof
    assume eq: "[system_message, system_message, ai_message] =
      take 1 [system_message, system_message, human_message, ai_message] @
      drop k (drop 1 [system_message, system_message, human_message, ai_message])"
    then have d: "drop k [system_message, human_message, ai_message] =
        [system_message, ai_message]"
      by simp
    then have "length (drop k [system_message, human_message, ai_message]) = 2" by simp
    then have "k = 1" by simp
    then show False using d by (simp add: message_defs)
  qed
  then show ?thesis unfolding r by simp
qed







end
